theory Spec2Isabelle
  imports Complex_Main
begin

section \<open>Text\<close>

text \<open>
  A Python \<open>str\<close> is a sequence of Unicode code points and \<open>len\<close> counts code points, so
  text is a list of code points. ASCII literals of the source are written \<open>asc ''...''\<close>;
  the Korean literals are given by their code points.
\<close>

type_synonym ustr = "nat list"

definition asc :: "string \<Rightarrow> ustr" where
  "asc s = map of_char s"

text \<open>\<open>str.isspace\<close> of one character, as CPython's whitespace table has it.\<close>

definition py_isspace :: "nat \<Rightarrow> bool" where
  "py_isspace c \<longleftrightarrow>
     (9 \<le> c \<and> c \<le> 13) \<or> (28 \<le> c \<and> c \<le> 32) \<or> c = 133 \<or> c = 160 \<or> c = 5760 \<or>
     (8192 \<le> c \<and> c \<le> 8202) \<or> c = 8232 \<or> c = 8233 \<or> c = 8239 \<or> c = 8287 \<or> c = 12288"

text \<open>\<open>s.strip()\<close>: leading and trailing whitespace removed.\<close>

definition py_strip :: "ustr \<Rightarrow> ustr" where
  "py_strip s = rev (dropWhile py_isspace (rev (dropWhile py_isspace s)))"

fun starts_with :: "ustr \<Rightarrow> ustr \<Rightarrow> bool" where
  "starts_with [] s = True"
| "starts_with (p # ps) [] = False"
| "starts_with (p # ps) (c # cs) = (p = c \<and> starts_with ps cs)"

text \<open>\<open>sub in s\<close> for two strings.\<close>

fun contains :: "ustr \<Rightarrow> ustr \<Rightarrow> bool" where
  "contains sub [] = (sub = [])"
| "contains sub (c # cs) = (starts_with sub (c # cs) \<or> contains sub cs)"

section \<open>Python values\<close>

text \<open>
  The handler is dynamically typed: the event, the decoded request body, the stored item and
  the backend's reply are arbitrary Python values. \<open>PObj\<close> is an instance of another type,
  such as \<open>object()\<close> or a \<open>datetime\<close>: it has none of the methods the code calls, no
  length, is no container and no number, is truthy, and \<open>json.dumps\<close> cannot serialise it.
  Floats are idealised as reals. Dictionaries have text keys and keep insertion order.
\<close>

datatype pyval =
    PNone
  | PBool bool
  | PInt int
  | PFloat real
  | PStr ustr
  | PList "pyval list"
  | PDict "(ustr \<times> pyval) list"
  | PObj nat

text \<open>Whether \<open>json.dumps\<close> serialises the value (otherwise it raises \<open>TypeError\<close>).\<close>

fun json_ok :: "pyval \<Rightarrow> bool" where
  "json_ok (PList xs) = list_all json_ok xs"
| "json_ok (PDict kvs) = list_all (\<lambda>kv. json_ok (snd kv)) kvs"
| "json_ok (PObj n) = False"
| "json_ok v = True"

text \<open>Truth value of a value in \<open>if v\<close> and \<open>not v\<close>.\<close>

fun py_truthy :: "pyval \<Rightarrow> bool" where
  "py_truthy PNone = False"
| "py_truthy (PBool b) = b"
| "py_truthy (PInt n) = (n \<noteq> 0)"
| "py_truthy (PFloat x) = (x \<noteq> 0)"
| "py_truthy (PStr s) = (s \<noteq> [])"
| "py_truthy (PList xs) = (xs \<noteq> [])"
| "py_truthy (PDict kvs) = (kvs \<noteq> [])"
| "py_truthy (PObj n) = True"

text \<open>Whether \<open>len(v)\<close> is defined (otherwise it raises \<open>TypeError\<close>).\<close>

fun py_has_len :: "pyval \<Rightarrow> bool" where
  "py_has_len (PStr s) = True"
| "py_has_len (PList xs) = True"
| "py_has_len (PDict kvs) = True"
| "py_has_len v = False"

section \<open>Exceptions\<close>

text \<open>
  An exception is its class and its \<open>str(e)\<close>. A botocore \<open>ClientError\<close> also carries
  \<open>response['Error']['Code']\<close> and \<open>response['Error']['Message']\<close>. Only subclasses of
  \<open>Exception\<close> are modelled.
\<close>

datatype exc_class =
    ClientError ustr ustr
  | AttributeError
  | TypeError
  | ValueError
  | KeyError
  | IndexError
  | JSONDecodeError
  | UnboundLocalError
  | PlainException
  | OtherError nat

datatype exn = Exc (exc_class: exc_class) (exc_str: ustr)

text \<open>
  What went wrong when the interpreter or a library function raises; the wording of the
  message belongs to the interpreter and is a parameter of the model.
\<close>

datatype fault =
    NoAttribute pyval ustr
  | NotSerializable pyval
  | NotText pyval
  | BadInt pyval
  | BadFloat pyval
  | NotContainer pyval
  | NotSubscriptable pyval
  | MissingKey ustr
  | OutOfRange
  | Unbound ustr

definition e_bind :: "exn + 'a \<Rightarrow> ('a \<Rightarrow> exn + 'b) \<Rightarrow> exn + 'b" where
  "e_bind r f = (case r of Inl e \<Rightarrow> Inl e | Inr x \<Rightarrow> f x)"

section \<open>The world outside the handler\<close>

text \<open>
  Everything the code reaches that is not in the repository: the process environment,
  the JSON decoder and the number parsers on text, the Bedrock runtime client, the DynamoDB
  table and the clock. \<open>invoke_model w payload model_id\<close> stands for lines 192-199: the call
  of \<open>bedrock_runtime.invoke_model\<close>, reading the body stream and decoding it, with any
  exception of the three. \<open>dynamo_table\<close> says whether \<open>boto3.resource\<close> and
  \<open>dynamodb.Table\<close> raise; \<open>get_item\<close> gives the response's \<open>Item\<close> when it has one.
  \<open>clock w n\<close> is what the n-th call of \<open>time.time()\<close> returns.
\<close>

record world =
  environ :: "ustr \<Rightarrow> ustr option"
  fault_text :: "fault \<Rightarrow> ustr"
  repr_text :: "pyval \<Rightarrow> ustr"
  loads_text :: "ustr \<Rightarrow> exn + pyval"
  int_text :: "ustr \<Rightarrow> int option"
  float_text :: "ustr \<Rightarrow> real option"
  invoke_model :: "pyval \<Rightarrow> pyval \<Rightarrow> exn + pyval"
  dynamo_table :: "ustr \<Rightarrow> exn option"
  get_item :: "ustr \<Rightarrow> pyval \<Rightarrow> exn + pyval option"
  put_item :: "ustr \<Rightarrow> pyval \<Rightarrow> exn option"
  clock :: "nat \<Rightarrow> real"

text \<open>
  The calls made to the backend and to the store, in order, and the number of clock
  readings taken so far. The payload of \<open>InvokeModel\<close> is the dictionary handed to
  \<open>json.dumps\<close>; \<open>print\<close> output is not recorded.
\<close>

datatype effect =
    InvokeModel pyval pyval
  | GetItem ustr pyval
  | PutItem ustr pyval

record state =
  trace :: "effect list"
  ticks :: nat

definition emit :: "effect \<Rightarrow> state \<Rightarrow> state" where
  "emit ev st = st\<lparr>trace := trace st @ [ev]\<rparr>"

definition time_time :: "world \<Rightarrow> state \<Rightarrow> real \<times> state" where
  "time_time w st = (clock w (ticks st), st\<lparr>ticks := Suc (ticks st)\<rparr>)"

fun is_store_effect :: "effect \<Rightarrow> bool" where
  "is_store_effect (InvokeModel payload model_id) = False"
| "is_store_effect (GetItem t k) = True"
| "is_store_effect (PutItem t item) = True"

fun is_invoke_effect :: "effect \<Rightarrow> bool" where
  "is_invoke_effect (InvokeModel payload model_id) = True"
| "is_invoke_effect (GetItem t k) = False"
| "is_invoke_effect (PutItem t item) = False"

section \<open>Builtins on Python values\<close>

definition raise_fault :: "world \<Rightarrow> exc_class \<Rightarrow> fault \<Rightarrow> exn + 'a" where
  "raise_fault w c f = Inl (Exc c (fault_text w f))"

text \<open>\<open>v.get(k, dflt)\<close>: only a dictionary has the method.\<close>

definition py_get :: "world \<Rightarrow> pyval \<Rightarrow> ustr \<Rightarrow> pyval \<Rightarrow> exn + pyval" where
  "py_get w v k dflt =
     (case v of
        PDict kvs \<Rightarrow> Inr (case map_of kvs k of Some x \<Rightarrow> x | None \<Rightarrow> dflt)
      | _ \<Rightarrow> raise_fault w AttributeError (NoAttribute v (asc ''get'')))"

text \<open>\<open>v.strip()\<close>: only text has the method.\<close>

definition py_strip_method :: "world \<Rightarrow> pyval \<Rightarrow> exn + ustr" where
  "py_strip_method w v =
     (case v of
        PStr s \<Rightarrow> Inr (py_strip s)
      | _ \<Rightarrow> raise_fault w AttributeError (NoAttribute v (asc ''strip'')))"

text \<open>\<open>v.append(x)\<close>: only a list has the method.\<close>

definition py_append :: "world \<Rightarrow> pyval \<Rightarrow> pyval \<Rightarrow> exn + pyval list" where
  "py_append w v x =
     (case v of
        PList xs \<Rightarrow> Inr (xs @ [x])
      | _ \<Rightarrow> raise_fault w AttributeError (NoAttribute v (asc ''append'')))"

text \<open>\<open>int(x)\<close> of a float truncates toward zero.\<close>

definition trunc :: "real \<Rightarrow> int" where
  "trunc x = (if 0 \<le> x then \<lfloor>x\<rfloor> else \<lceil>x\<rceil>)"

definition py_int :: "world \<Rightarrow> pyval \<Rightarrow> exn + int" where
  "py_int w v =
     (case v of
        PInt n \<Rightarrow> Inr n
      | PBool b \<Rightarrow> Inr (if b then 1 else 0)
      | PFloat x \<Rightarrow> Inr (trunc x)
      | PStr s \<Rightarrow> (case int_text w s of Some n \<Rightarrow> Inr n
                   | None \<Rightarrow> raise_fault w ValueError (BadInt v))
      | _ \<Rightarrow> raise_fault w TypeError (BadInt v))"

definition py_float :: "world \<Rightarrow> pyval \<Rightarrow> exn + real" where
  "py_float w v =
     (case v of
        PInt n \<Rightarrow> Inr (of_int n)
      | PBool b \<Rightarrow> Inr (if b then 1 else 0)
      | PFloat x \<Rightarrow> Inr x
      | PStr s \<Rightarrow> (case float_text w s of Some x \<Rightarrow> Inr x
                   | None \<Rightarrow> raise_fault w ValueError (BadFloat v))
      | _ \<Rightarrow> raise_fault w TypeError (BadFloat v))"

text \<open>\<open>json.loads(v)\<close>: text goes to the decoder, anything else is a \<open>TypeError\<close>.\<close>

definition py_json_loads :: "world \<Rightarrow> pyval \<Rightarrow> exn + pyval" where
  "py_json_loads w v =
     (case v of
        PStr s \<Rightarrow> loads_text w s
      | _ \<Rightarrow> raise_fault w TypeError (NotText v))"

text \<open>\<open>sub in v\<close> for a text \<open>sub\<close>: substring, list membership, dictionary key.\<close>

definition py_contains :: "world \<Rightarrow> ustr \<Rightarrow> pyval \<Rightarrow> exn + bool" where
  "py_contains w sub v =
     (case v of
        PStr s \<Rightarrow> Inr (contains sub s)
      | PList xs \<Rightarrow> Inr (PStr sub \<in> set xs)
      | PDict kvs \<Rightarrow> Inr (sub \<in> fst ` set kvs)
      | _ \<Rightarrow> raise_fault w TypeError (NotContainer v))"

text \<open>\<open>v[k]\<close> for a text key \<open>k\<close>.\<close>

definition py_item :: "world \<Rightarrow> pyval \<Rightarrow> ustr \<Rightarrow> exn + pyval" where
  "py_item w v k =
     (case v of
        PDict kvs \<Rightarrow> (case map_of kvs k of Some x \<Rightarrow> Inr x
                      | None \<Rightarrow> raise_fault w KeyError (MissingKey k))
      | _ \<Rightarrow> raise_fault w TypeError (NotSubscriptable v))"

text \<open>\<open>v[0]\<close>.\<close>

definition py_first :: "world \<Rightarrow> pyval \<Rightarrow> exn + pyval" where
  "py_first w v =
     (case v of
        PList xs \<Rightarrow> (case xs of [] \<Rightarrow> raise_fault w IndexError OutOfRange | x # _ \<Rightarrow> Inr x)
      | PStr s \<Rightarrow> (case s of [] \<Rightarrow> raise_fault w IndexError OutOfRange | c # _ \<Rightarrow> Inr (PStr [c]))
      | PDict kvs \<Rightarrow> raise_fault w KeyError (MissingKey (asc ''0''))
      | _ \<Rightarrow> raise_fault w TypeError (NotSubscriptable v))"

text \<open>\<open>str(v)\<close>, as an f-string formats a value.\<close>

definition py_str :: "world \<Rightarrow> pyval \<Rightarrow> ustr" where
  "py_str w v = (case v of PStr s \<Rightarrow> s | _ \<Rightarrow> repr_text w v)"

text \<open>\<open>os.environ.get(k, dflt)\<close>.\<close>

definition env_get :: "world \<Rightarrow> ustr \<Rightarrow> ustr \<Rightarrow> ustr" where
  "env_get w k dflt = (case environ w k of Some v \<Rightarrow> v | None \<Rightarrow> dflt)"

text \<open>\<open>round(x, 2)\<close> on the idealised float: to the nearest hundredth, ties to even.\<close>

definition py_round2 :: "real \<Rightarrow> real" where
  "py_round2 x =
     (let y = x * 100; f = \<lfloor>y\<rfloor>; d = y - of_int f
      in of_int (if d < 1 / 2 then f else if 1 / 2 < d then f + 1
                 else if even f then f else f + 1) / 100)"

section \<open>The program\<close>

subsection \<open>Literals\<close>

text \<open>The messages of the source that are not ASCII, by code point.\<close>

definition bad_json_text :: ustr where
  "bad_json_text =
     [51096, 47803, 46108, 32, 74, 83, 79, 78, 32, 54805, 49885, 51077, 45768, 45796, 46]"

definition message_required_text :: ustr where
  "message_required_text =
     [47700, 49884, 51648, 44032, 32, 54596, 50836, 54633, 45768, 45796, 46]"

definition message_too_long_text :: ustr where
  "message_too_long_text =
     [47700, 49884, 51648, 44032, 32, 45320, 47924, 32, 44609, 45768, 45796, 46, 32, 49, 48, 44,
      48, 48, 48, 51088, 32, 51060, 45236, 47196, 32, 51077, 47141, 54644, 51452, 49464, 50836,
      46]"

definition access_denied_text :: ustr where
  "access_denied_text =
     [47784, 45944, 32, 50529, 49464, 49828, 32, 44428, 54620, 51060, 32, 50630, 49845, 45768,
      45796, 46, 32, 65, 87, 83, 32, 53080, 49556, 50640, 49436, 32, 77, 111, 100, 101, 108, 32,
      97, 99, 99, 101, 115, 115, 47484, 32, 54876, 49457, 54868, 54616, 49464, 50836, 46]"

definition throttled_text :: ustr where
  "throttled_text =
     [50836, 52397, 51060, 32, 45320, 47924, 32, 47566, 49845, 45768, 45796, 46, 32, 51104,
      49884, 32, 54980, 32, 45796, 49884, 32, 49884, 46020, 54644, 51452, 49464, 50836, 46]"

definition validation_prefix :: ustr where
  "validation_prefix =
     [50836, 52397, 32, 54805, 49885, 51060, 32, 51096, 47803, 46104, 50632, 49845, 45768,
      45796, 58, 32]"

definition aws_error_prefix :: ustr where
  "aws_error_prefix = [65, 87, 83, 32, 49436, 48708, 49828, 32, 50724, 47448, 58, 32]"

definition internal_error_prefix :: ustr where
  "internal_error_prefix =
     [49436, 48260, 32, 45236, 48512, 32, 50724, 47448, 44032, 32, 48156, 49373, 54664, 49845,
      45768, 45796, 58, 32]"

definition unsupported_model_prefix :: ustr where
  "unsupported_model_prefix =
     [51648, 50896, 54616, 51648, 32, 50506, 45716, 32, 47784, 45944, 51077, 45768, 45796, 58,
      32]"

definition call_error_prefix :: ustr where
  "call_error_prefix =
     [47784, 45944, 32, 54840, 52636, 32, 51473, 32, 50724, 47448, 44032, 32, 48156, 49373,
      54664, 49845, 45768, 45796, 58, 32]"

definition default_model_id :: ustr where
  "default_model_id = asc ''anthropic.claude-sonnet-4-20250514-v1:0''"

subsection \<open>Responses\<close>

record response =
  statusCode :: int
  headers :: "(ustr \<times> ustr) list"
  body :: pyval

text \<open>
  \<open>body\<close> holds the dictionary the source hands to \<open>json.dumps\<close>; its serialisation to
  text is not modelled.
\<close>

definition cors_headers :: "(ustr \<times> ustr) list" where
  "cors_headers =
     [(asc ''Content-Type'', asc ''application/json; charset=utf-8''),
      (asc ''Access-Control-Allow-Origin'', asc ''*''),
      (asc ''Access-Control-Allow-Methods'', asc ''POST, OPTIONS''),
      (asc ''Access-Control-Allow-Headers'', asc ''Content-Type, Authorization, X-Requested-With'')]"

definition preflight_response :: "(ustr \<times> ustr) list \<Rightarrow> response" where
  "preflight_response hs =
     \<lparr>statusCode = 200, headers = hs,
      body = PDict [(asc ''message'', PStr (asc ''CORS preflight successful''))]\<rparr>"

definition method_not_allowed_response :: "(ustr \<times> ustr) list \<Rightarrow> response" where
  "method_not_allowed_response hs =
     \<lparr>statusCode = 405, headers = hs,
      body = PDict [(asc ''error'', PStr (asc ''Method not allowed. Use POST method.'')),
                    (asc ''allowed_methods'', PList [PStr (asc ''POST''), PStr (asc ''OPTIONS'')])]\<rparr>"

definition bad_json_response :: "(ustr \<times> ustr) list \<Rightarrow> response" where
  "bad_json_response hs =
     \<lparr>statusCode = 400, headers = hs,
      body = PDict [(asc ''error'', PStr bad_json_text),
                    (asc ''status'', PStr (asc ''error''))]\<rparr>"

definition message_required_response :: "(ustr \<times> ustr) list \<Rightarrow> response" where
  "message_required_response hs =
     \<lparr>statusCode = 400, headers = hs,
      body = PDict [(asc ''error'', PStr message_required_text),
                    (asc ''required_fields'', PList [PStr (asc ''message'')]),
                    (asc ''optional_fields'',
                       PList [PStr (asc ''session_id''), PStr (asc ''model_id''),
                              PStr (asc ''max_tokens''), PStr (asc ''temperature'')])]\<rparr>"

definition message_too_long_response :: "(ustr \<times> ustr) list \<Rightarrow> ustr \<Rightarrow> response" where
  "message_too_long_response hs message =
     \<lparr>statusCode = 400, headers = hs,
      body = PDict [(asc ''error'', PStr message_too_long_text),
                    (asc ''current_length'', PInt (int (length message))),
                    (asc ''max_length'', PInt 10000)]\<rparr>"

definition success_body :: "pyval \<Rightarrow> pyval \<Rightarrow> pyval \<Rightarrow> real \<Rightarrow> real \<Rightarrow> pyval" where
  "success_body response_text session_id model_id start_time end_time =
     PDict [(asc ''response'', response_text),
            (asc ''session_id'', session_id),
            (asc ''model_used'', model_id),
            (asc ''processing_time'', PFloat (py_round2 (end_time - start_time))),
            (asc ''region'', PStr (asc ''ap-northeast-2'')),
            (asc ''status'', PStr (asc ''success''))]"

definition aws_error_message :: "ustr \<Rightarrow> ustr \<Rightarrow> ustr \<Rightarrow> ustr" where
  "aws_error_message error_code error_msg described =
     (if error_code = asc ''AccessDeniedException'' then access_denied_text
      else if error_code = asc ''ThrottlingException'' then throttled_text
      else if error_code = asc ''ValidationException'' then validation_prefix @ error_msg
      else aws_error_prefix @ described)"

definition aws_error_response :: "(ustr \<times> ustr) list \<Rightarrow> ustr \<Rightarrow> ustr \<Rightarrow> ustr \<Rightarrow> response" where
  "aws_error_response hs error_code error_msg described =
     \<lparr>statusCode = 500, headers = hs,
      body = PDict [(asc ''error'', PStr (aws_error_message error_code error_msg described)),
                    (asc ''error_code'', PStr error_code),
                    (asc ''status'', PStr (asc ''aws_error''))]\<rparr>"

definition internal_error_response :: "(ustr \<times> ustr) list \<Rightarrow> ustr \<Rightarrow> response" where
  "internal_error_response hs described =
     \<lparr>statusCode = 500, headers = hs,
      body = PDict [(asc ''error'', PStr (internal_error_prefix @ described)),
                    (asc ''status'', PStr (asc ''internal_error''))]\<rparr>"

definition turn :: "string \<Rightarrow> pyval \<Rightarrow> pyval" where
  "turn role content = PDict [(asc ''role'', PStr (asc role)), (asc ''content'', content)]"

subsection \<open>format_messages_for_titan (lines 280-292)\<close>

fun titan_lines :: "world \<Rightarrow> pyval list \<Rightarrow> ustr \<Rightarrow> exn + ustr" where
  "titan_lines w [] formatted = Inr formatted"
| "titan_lines w (msg # rest) formatted =
     e_bind (py_item w msg (asc ''role'')) (\<lambda>role.
       if role = PStr (asc ''user'') then
         e_bind (py_item w msg (asc ''content'')) (\<lambda>content.
           titan_lines w rest (formatted @ asc ''User: '' @ py_str w content @ [10]))
       else if role = PStr (asc ''assistant'') then
         e_bind (py_item w msg (asc ''content'')) (\<lambda>content.
           titan_lines w rest (formatted @ asc ''Assistant: '' @ py_str w content @ [10]))
       else titan_lines w rest formatted)"

definition format_messages_for_titan :: "world \<Rightarrow> pyval list \<Rightarrow> exn + ustr" where
  "format_messages_for_titan w messages =
     e_bind (titan_lines w messages []) (\<lambda>formatted. Inr (formatted @ asc ''Assistant: ''))"

subsection \<open>call_bedrock (lines 160-213)\<close>

text \<open>Lines 166-188: the request body for the model family, or \<open>ValueError\<close>.\<close>

definition request_body :: "world \<Rightarrow> pyval list \<Rightarrow> pyval \<Rightarrow> int \<Rightarrow> real \<Rightarrow> exn + pyval" where
  "request_body w messages model_id max_tokens temperature =
     e_bind (py_contains w (asc ''anthropic'') model_id) (\<lambda>is_anthropic.
       if is_anthropic then
         Inr (PDict [(asc ''anthropic_version'', PStr (asc ''bedrock-2023-05-31'')),
                     (asc ''max_tokens'', PInt max_tokens),
                     (asc ''messages'', PList messages),
                     (asc ''temperature'', PFloat temperature)])
       else
         e_bind (py_contains w (asc ''amazon.titan'') model_id) (\<lambda>is_titan.
           if is_titan then
             e_bind (format_messages_for_titan w messages) (\<lambda>prompt.
               Inr (PDict [(asc ''inputText'', PStr prompt),
                           (asc ''textGenerationConfig'',
                              PDict [(asc ''maxTokenCount'', PInt max_tokens),
                                     (asc ''temperature'', PFloat temperature),
                                     (asc ''topP'', PFloat (9 / 10))])]))
           else Inl (Exc ValueError (unsupported_model_prefix @ py_str w model_id))))"

text \<open>Lines 203-206: the text of the reply, by model family.\<close>

definition response_text_of :: "world \<Rightarrow> pyval \<Rightarrow> pyval \<Rightarrow> exn + pyval" where
  "response_text_of w model_id response_body =
     e_bind (py_contains w (asc ''anthropic'') model_id) (\<lambda>is_anthropic.
       if is_anthropic then
         e_bind (py_item w response_body (asc ''content'')) (\<lambda>blocks.
         e_bind (py_first w blocks) (\<lambda>block. py_item w block (asc ''text'')))
       else
         e_bind (py_contains w (asc ''amazon.titan'') model_id) (\<lambda>is_titan.
           if is_titan then
             e_bind (py_item w response_body (asc ''results'')) (\<lambda>results.
             e_bind (py_first w results) (\<lambda>result. py_item w result (asc ''outputText'')))
           else Inr PNone))"

text \<open>The body of the \<open>try\<close> (lines 165-206).\<close>

definition call_bedrock_try ::
  "world \<Rightarrow> pyval list \<Rightarrow> pyval \<Rightarrow> int \<Rightarrow> real \<Rightarrow> state \<Rightarrow> (exn + pyval) \<times> state" where
  "call_bedrock_try w messages model_id max_tokens temperature st =
     (case request_body w messages model_id max_tokens temperature of
        Inl e \<Rightarrow> (Inl e, st)
      | Inr payload \<Rightarrow>
          if \<not> json_ok payload then (raise_fault w TypeError (NotSerializable payload), st)
          else
            (case invoke_model w payload model_id of
               Inl e \<Rightarrow> (Inl e, emit (InvokeModel payload model_id) st)
             | Inr response_body \<Rightarrow>
                 (response_text_of w model_id response_body,
                  emit (InvokeModel payload model_id) st)))"

text \<open>
  The \<open>except\<close> clauses (lines 208-213): a \<open>ClientError\<close> is raised again as it is, any
  other exception is replaced by a plain \<open>Exception\<close> with a prefixed message.
\<close>

definition call_bedrock_except :: "exn \<Rightarrow> exn" where
  "call_bedrock_except e =
     (case exc_class e of
        ClientError error_code error_msg \<Rightarrow> e
      | _ \<Rightarrow> Exc PlainException (call_error_prefix @ exc_str e))"

definition call_bedrock ::
  "world \<Rightarrow> pyval list \<Rightarrow> pyval \<Rightarrow> int \<Rightarrow> real \<Rightarrow> state \<Rightarrow> (exn + pyval) \<times> state" where
  "call_bedrock w messages model_id max_tokens temperature st =
     (case call_bedrock_try w messages model_id max_tokens temperature st of
        (Inl e, st') \<Rightarrow> (Inl (call_bedrock_except e), st')
      | (Inr response_text, st') \<Rightarrow> (Inr response_text, st'))"

subsection \<open>The history store (lines 215-278)\<close>

definition store_configured :: "world \<Rightarrow> bool" where
  "store_configured w =
     (case environ w (asc ''DYNAMODB_TABLE'') of None \<Rightarrow> False | Some t \<Rightarrow> t \<noteq> [])"

definition table_name :: "world \<Rightarrow> ustr" where
  "table_name w = env_get w (asc ''DYNAMODB_TABLE'') []"

text \<open>
  get_conversation_history: every exception of the \<open>try\<close> (lines 223-235), the one of
  \<open>len(messages)\<close> in the log line included, ends in \<open>return []\<close>.
\<close>

definition get_conversation_history ::
  "world \<Rightarrow> pyval \<Rightarrow> state \<Rightarrow> (exn + pyval) \<times> state" where
  "get_conversation_history w session_id st =
     (if \<not> store_configured w then (Inr (PList []), st)
      else
        (case dynamo_table w (table_name w) of
           Some e \<Rightarrow> (Inr (PList []), st)
         | None \<Rightarrow>
             (case get_item w (table_name w) session_id of
                Inl e \<Rightarrow> (Inr (PList []), emit (GetItem (table_name w) session_id) st)
              | Inr None \<Rightarrow> (Inr (PList []), emit (GetItem (table_name w) session_id) st)
              | Inr (Some item) \<Rightarrow>
                  (case py_get w item (asc ''messages'') (PList []) of
                     Inl e \<Rightarrow> (Inr (PList []), emit (GetItem (table_name w) session_id) st)
                   | Inr messages \<Rightarrow>
                       if py_has_len messages
                       then (Inr messages, emit (GetItem (table_name w) session_id) st)
                       else (Inr (PList []), emit (GetItem (table_name w) session_id) st)))))"

text \<open>Lines 259-261: \<open>messages[-20:]\<close> when there are more than 20.\<close>

definition last_20 :: "pyval list \<Rightarrow> pyval list" where
  "last_20 messages =
     (if length messages > 20 then drop (length messages - 20) messages else messages)"

text \<open>
  save_conversation_history: the clock is read twice, first for \<open>ttl\<close> (line 264), then
  for \<open>updated_at\<close> (line 270); an exception of \<open>put_item\<close> is logged and dropped.
\<close>

definition save_conversation_history ::
  "world \<Rightarrow> pyval \<Rightarrow> pyval list \<Rightarrow> pyval \<Rightarrow> state \<Rightarrow> (exn + unit) \<times> state" where
  "save_conversation_history w session_id messages bot_response st =
     (if \<not> store_configured w then (Inr (), st)
      else
        (let messages1 = messages @ [turn ''assistant'' bot_response] in
         case dynamo_table w (table_name w) of
           Some e \<Rightarrow> (Inr (), st)
         | None \<Rightarrow>
             (let messages2 = last_20 messages1;
                  (t1, st1) = time_time w st;
                  ttl = trunc t1 + 24 * 60 * 60;
                  (t2, st2) = time_time w st1;
                  item = PDict [(asc ''session_id'', session_id),
                                (asc ''messages'', PList messages2),
                                (asc ''updated_at'', PInt (trunc t2)),
                                (asc ''ttl'', PInt ttl)]
              in case put_item w (table_name w) item of
                   None \<Rightarrow> (Inr (), emit (PutItem (table_name w) item) st2)
                 | Some e \<Rightarrow> (Inr (), emit (PutItem (table_name w) item) st2))))"

subsection \<open>lambda_handler (lines 14-158)\<close>

text \<open>Line 62: \<open>body.get('message', '').strip()\<close>.\<close>

definition message_of :: "world \<Rightarrow> pyval \<Rightarrow> exn + ustr" where
  "message_of w request =
     e_bind (py_get w request (asc ''message'') (PStr [])) (py_strip_method w)"

text \<open>Line 65: \<open>int(body.get('max_tokens', os.environ.get('MAX_TOKENS', '1000')))\<close>.\<close>

definition max_tokens_of :: "world \<Rightarrow> pyval \<Rightarrow> exn + int" where
  "max_tokens_of w request =
     e_bind (py_get w request (asc ''max_tokens'')
               (PStr (env_get w (asc ''MAX_TOKENS'') (asc ''1000'')))) (py_int w)"

text \<open>Line 66: \<open>float(body.get('temperature', os.environ.get('TEMPERATURE', '0.7')))\<close>.\<close>

definition temperature_of :: "world \<Rightarrow> pyval \<Rightarrow> exn + real" where
  "temperature_of w request =
     e_bind (py_get w request (asc ''temperature'')
               (PStr (env_get w (asc ''TEMPERATURE'') (asc ''0.7'')))) (py_float w)"

text \<open>Lines 62-66: the request parameters, in the order the source evaluates them.\<close>

definition request_params ::
  "world \<Rightarrow> pyval \<Rightarrow> exn + (ustr \<times> pyval \<times> pyval \<times> int \<times> real)" where
  "request_params w request =
     e_bind (message_of w request) (\<lambda>message.
     e_bind (py_get w request (asc ''session_id'') PNone) (\<lambda>session_id.
     e_bind (py_get w request (asc ''model_id'') (PStr default_model_id)) (\<lambda>model_id.
     e_bind (max_tokens_of w request) (\<lambda>max_tokens.
     e_bind (temperature_of w request) (\<lambda>temperature.
       Inr (message, session_id, model_id, max_tokens, temperature))))))"

text \<open>Lines 92-124: history, backend call, save, success response.\<close>

definition converse ::
  "world \<Rightarrow> (ustr \<times> ustr) list \<Rightarrow> ustr \<Rightarrow> pyval \<Rightarrow> pyval \<Rightarrow> int \<Rightarrow> real \<Rightarrow> state \<Rightarrow>
     (exn + response) \<times> state" where
  "converse w hs message session_id model_id max_tokens temperature st =
     (case (if py_truthy session_id then get_conversation_history w session_id st
            else (Inr (PList []), st)) of
        (Inl e, st1) \<Rightarrow> (Inl e, st1)
      | (Inr history, st1) \<Rightarrow>
          (case py_append w history (turn ''user'' (PStr message)) of
             Inl e \<Rightarrow> (Inl e, st1)
           | Inr conversation_history \<Rightarrow>
               (let (start_time, st2) = time_time w st1 in
                case call_bedrock w conversation_history model_id max_tokens temperature st2 of
                  (Inl e, st3) \<Rightarrow> (Inl e, st3)
                | (Inr response_text, st3) \<Rightarrow>
                    (let (end_time, st4) = time_time w st3;
                         st5 = (if py_truthy session_id
                                then snd (save_conversation_history w session_id
                                            conversation_history response_text st4)
                                else st4);
                         payload = success_body response_text session_id model_id
                                     start_time end_time
                     in if json_ok payload
                        then (Inr \<lparr>statusCode = 200, headers = hs, body = payload\<rparr>, st5)
                        else (raise_fault w TypeError (NotSerializable payload), st5)))))"

text \<open>Line 50: \<open>json.loads(event.get('body', '{}'))\<close>.\<close>

definition parse_body :: "world \<Rightarrow> pyval \<Rightarrow> exn + pyval" where
  "parse_body w event =
     e_bind (py_get w event (asc ''body'') (PStr (asc ''{}''))) (py_json_loads w)"

text \<open>Lines 30-124: the \<open>try\<close> body once \<open>headers\<close> is bound.\<close>

definition handle_request ::
  "world \<Rightarrow> (ustr \<times> ustr) list \<Rightarrow> pyval \<Rightarrow> state \<Rightarrow> (exn + response) \<times> state" where
  "handle_request w hs event st =
     (case py_get w event (asc ''httpMethod'') PNone of
        Inl e \<Rightarrow> (Inl e, st)
      | Inr http_method \<Rightarrow>
          if http_method = PStr (asc ''OPTIONS'') then (Inr (preflight_response hs), st)
          else if http_method \<noteq> PStr (asc ''POST'')
          then (Inr (method_not_allowed_response hs), st)
          else
            (case parse_body w event of
               Inl e \<Rightarrow>
                 if exc_class e = JSONDecodeError then (Inr (bad_json_response hs), st)
                 else (Inl e, st)
             | Inr request \<Rightarrow>
                 (case request_params w request of
                    Inl e \<Rightarrow> (Inl e, st)
                  | Inr (message, session_id, model_id, max_tokens, temperature) \<Rightarrow>
                      if message = [] then (Inr (message_required_response hs), st)
                      else if length message > 10000
                      then (Inr (message_too_long_response hs message), st)
                      else converse w hs message session_id model_id max_tokens
                             temperature st)))"

text \<open>
  The \<open>except\<close> clauses (lines 126-158). Both read the local variable \<open>headers\<close>, which
  is bound on line 22, inside the \<open>try\<close>: when the exception came earlier, reading it
  raises \<open>UnboundLocalError\<close> out of the handler.
\<close>

definition handle_exception ::
  "world \<Rightarrow> (ustr \<times> ustr) list option \<Rightarrow> exn \<Rightarrow> exn + response" where
  "handle_exception w bound_headers e =
     (case bound_headers of
        None \<Rightarrow> raise_fault w UnboundLocalError (Unbound (asc ''headers''))
      | Some hs \<Rightarrow>
          (case exc_class e of
             ClientError error_code error_msg \<Rightarrow>
               Inr (aws_error_response hs error_code error_msg (exc_str e))
           | _ \<Rightarrow> Inr (internal_error_response hs (exc_str e))))"

text \<open>What the handler returns for an outcome of the \<open>try\<close> body.\<close>

definition catch_all ::
  "world \<Rightarrow> (ustr \<times> ustr) list option \<Rightarrow> (exn + response) \<times> state \<Rightarrow>
     (exn + response) \<times> state" where
  "catch_all w bound_headers outcome =
     (case outcome of
        (Inl e, st') \<Rightarrow> (handle_exception w bound_headers e, st')
      | (Inr r, st') \<Rightarrow> (Inr r, st'))"

text \<open>
  Line 19 logs \<open>json.dumps(event)\<close> before \<open>headers\<close> is bound; it raises \<open>TypeError\<close>
  when the event holds a value that JSON cannot serialise.
\<close>

definition lambda_handler :: "world \<Rightarrow> pyval \<Rightarrow> state \<Rightarrow> (exn + response) \<times> state" where
  "lambda_handler w event st =
     (if \<not> json_ok event
      then catch_all w None (raise_fault w TypeError (NotSerializable event), st)
      else catch_all w (Some cors_headers) (handle_request w cors_headers event st))"

section \<open>A sample world\<close>

text \<open>
  A concrete interpreter, backend, store and clock for the examples: no table is
  configured, the decoder knows the documents listed, the backend answers every call with the
  Anthropic reply shape, and the clock advances by half a second per reading.
\<close>

definition demo_documents :: "(ustr \<times> pyval) list" where
  \<open>demo_documents =
     [(asc ''{}'', PDict []),
      (asc ''[]'', PList []),
      (asc ''{"message": "hello"}'', PDict [(asc ''message'', PStr (asc ''hello''))]),
      (asc ''{"message": "hello", "session_id": ""}'',
         PDict [(asc ''message'', PStr (asc ''hello'')), (asc ''session_id'', PStr [])]),
      (asc ''{"message": "  "}'', PDict [(asc ''message'', PStr (asc ''  ''))]),
      (asc ''{"message": "  ", "max_tokens": "abc"}'',
         PDict [(asc ''message'', PStr (asc ''  '')), (asc ''max_tokens'', PStr (asc ''abc''))])]\<close>

fun demo_fault_text :: "fault \<Rightarrow> ustr" where
  "demo_fault_text (NoAttribute v a) = asc ''object has no attribute '' @ a"
| "demo_fault_text (NotSerializable v) = asc ''Object is not JSON serializable''"
| "demo_fault_text (NotText v) = asc ''the JSON object must be str, bytes or bytearray''"
| "demo_fault_text (BadInt v) = asc ''invalid literal for int() with base 10''"
| "demo_fault_text (BadFloat v) = asc ''could not convert string to float''"
| "demo_fault_text (NotContainer v) = asc ''argument is not iterable''"
| "demo_fault_text (NotSubscriptable v) = asc ''object is not subscriptable''"
| "demo_fault_text (MissingKey k) = k"
| "demo_fault_text OutOfRange = asc ''list index out of range''"
| "demo_fault_text (Unbound n) = asc ''cannot access local variable '' @ n"

definition demo_world :: world where
  "demo_world =
     \<lparr>environ = (\<lambda>k. None),
      fault_text = demo_fault_text,
      repr_text = (\<lambda>v. asc ''value''),
      loads_text = (\<lambda>s. case map_of demo_documents s of
                           Some v \<Rightarrow> Inr v
                         | None \<Rightarrow> Inl (Exc JSONDecodeError (asc ''Expecting value''))),
      int_text = (\<lambda>s. if s = asc ''1000'' then Some 1000 else None),
      float_text = (\<lambda>s. if s = asc ''0.7'' then Some (7 / 10) else None),
      invoke_model = (\<lambda>payload model_id.
                        Inr (PDict [(asc ''content'',
                                     PList [PDict [(asc ''text'', PStr (asc ''ok''))]])])),
      dynamo_table = (\<lambda>t. None),
      get_item = (\<lambda>t k. Inr None),
      put_item = (\<lambda>t item. None),
      clock = (\<lambda>n. 1700000000 + of_nat n / 2)\<rparr>"

text \<open>The same world with the table \<open>chat\<close> configured.\<close>

definition store_world :: world where
  "store_world =
     demo_world\<lparr>environ := (\<lambda>k. if k = asc ''DYNAMODB_TABLE'' then Some (asc ''chat'') else None)\<rparr>"

text \<open>The configured world with a table whose reads fail.\<close>

definition broken_store_world :: world where
  "broken_store_world =
     store_world\<lparr>get_item :=
       (\<lambda>t k. Inl (Exc (ClientError (asc ''InternalServerError'') (asc ''read failed''))
                       (asc ''An error occurred'')))\<rparr>"


text \<open>Twenty-two turns, numbered by their content.\<close>

definition demo_turns :: "pyval list" where
  "demo_turns =
     map (\<lambda>n. turn (if even n then ''user'' else ''assistant'') (PInt (int n))) [0..<22]"

definition initial_state :: state where
  "initial_state = \<lparr>trace = [], ticks = 0\<rparr>"

definition post_event :: "pyval \<Rightarrow> pyval" where
  "post_event request_text =
     PDict [(asc ''httpMethod'', PStr (asc ''POST'')), (asc ''body'', request_text)]"

section \<open>Basic facts\<close>

lemma asc_eq_iff [simp]: "asc s = asc t \<longleftrightarrow> s = t"
  by (simp add: asc_def inj_map_eq_map inj_on_def)

lemma asc_Nil [simp]: "asc [] = []"
  by (simp add: asc_def)

lemma asc_eq_Nil [simp]: "asc s = [] \<longleftrightarrow> s = []"
  by (simp add: asc_def)

lemma asc_Cons: "asc (c # s) = of_char c # asc s"
  by (simp add: asc_def)

lemma length_asc [simp]: "length (asc s) = length s"
  by (simp add: asc_def)

lemma e_bind_Inl [simp]: "e_bind (Inl e) f = Inl e"
  by (simp add: e_bind_def)

lemma e_bind_Inr [simp]: "e_bind (Inr x) f = f x"
  by (simp add: e_bind_def)

lemma py_get_dict [simp]:
  "py_get w (PDict kvs) k dflt = Inr (case map_of kvs k of Some x \<Rightarrow> x | None \<Rightarrow> dflt)"
  by (simp add: py_get_def)

lemma trace_emit [simp]: "trace (emit ev st) = trace st @ [ev]"
  by (simp add: emit_def)

lemma ticks_emit [simp]: "ticks (emit ev st) = ticks st"
  by (simp add: emit_def)

lemma catch_all_Inr [simp]: "catch_all w hs (Inr r, st) = (Inr r, st)"
  by (simp add: catch_all_def)

lemma catch_all_Inl [simp]: "catch_all w hs (Inl e, st) = (handle_exception w hs e, st)"
  by (simp add: catch_all_def)

lemma py_contains_str [simp]: "py_contains w sub (PStr s) = Inr (contains sub s)"
  by (simp add: py_contains_def)

lemma json_ok_turn [simp]: "json_ok (turn role content) = json_ok content"
  by (simp add: turn_def)

subsection \<open>Whitespace\<close>



subsection \<open>The handler, stage by stage\<close>

lemma lambda_handler_json_ok:
  "json_ok event \<Longrightarrow>
   lambda_handler w event st =
     catch_all w (Some cors_headers) (handle_request w cors_headers event st)"
  by (simp add: lambda_handler_def)

lemma handle_request_post:
  assumes "map_of ev (asc ''httpMethod'') = Some (PStr (asc ''POST''))"
  shows "handle_request w hs (PDict ev) st =
     (case parse_body w (PDict ev) of
        Inl e \<Rightarrow>
          if exc_class e = JSONDecodeError then (Inr (bad_json_response hs), st)
          else (Inl e, st)
      | Inr request \<Rightarrow>
          (case request_params w request of
             Inl e \<Rightarrow> (Inl e, st)
           | Inr (message, session_id, model_id, max_tokens, temperature) \<Rightarrow>
               if message = [] then (Inr (message_required_response hs), st)
               else if length message > 10000
               then (Inr (message_too_long_response hs message), st)
               else converse w hs message session_id model_id max_tokens temperature st))"
  using assms by (simp add: handle_request_def)

lemma handle_exception_bound:
  "\<exists>r. handle_exception w (Some hs) e = Inr r \<and> statusCode r = 500"
  by (simp add: handle_exception_def aws_error_response_def internal_error_response_def
      split: exc_class.split)




lemma request_params_Inr:
  "request_params w request = Inr (message, session_id, model_id, max_tokens, temperature) \<Longrightarrow>
   message_of w request = Inr message \<and>
   py_get w request (asc ''session_id'') PNone = Inr session_id \<and>
   py_get w request (asc ''model_id'') (PStr default_model_id) = Inr model_id \<and>
   max_tokens_of w request = Inr max_tokens \<and>
   temperature_of w request = Inr temperature"
  by (auto simp add: request_params_def e_bind_def split: sum.splits)

lemma handler_after_params:
  assumes "json_ok (PDict ev)"
    and "map_of ev (asc ''httpMethod'') = Some (PStr (asc ''POST''))"
    and "parse_body w (PDict ev) = Inr request"
    and "request_params w request = Inr (message, session_id, model_id, max_tokens, temperature)"
  shows "lambda_handler w (PDict ev) st =
     (if message = [] then (Inr (message_required_response cors_headers), st)
      else if length message > 10000
      then (Inr (message_too_long_response cors_headers message), st)
      else catch_all w (Some cors_headers)
             (converse w cors_headers message session_id model_id max_tokens temperature st))"
  using assms by (simp add: lambda_handler_json_ok handle_request_post)

subsection \<open>Sample values\<close>

lemma demo_not_configured: "\<not> store_configured demo_world"
  by (simp add: demo_world_def store_configured_def)

lemma store_world_configured:
  "store_configured store_world" "table_name store_world = asc ''chat''"
  "dynamo_table store_world t = None"
  by (simp_all add: store_world_def demo_world_def store_configured_def table_name_def
      env_get_def)

lemma broken_store_world_configured:
  "store_configured broken_store_world" "table_name broken_store_world = asc ''chat''"
  "dynamo_table broken_store_world t = None"
  by (simp_all add: broken_store_world_def store_world_def demo_world_def store_configured_def
      table_name_def env_get_def)

lemma json_ok_post_event [simp]: "json_ok (post_event v) = json_ok v"
  by (simp add: post_event_def)

lemma post_event_method:
  "map_of [(asc ''httpMethod'', PStr (asc ''POST'')), (asc ''body'', v)] (asc ''httpMethod'') =
     Some (PStr (asc ''POST''))"
  by simp




lemma py_strip_hello: "py_strip (asc ''hello'') = asc ''hello''"
  by (simp add: py_strip_def asc_def py_isspace_def)






lemma demo_turns_eval:
  "demo_turns = [turn ''user'' (PInt 0), turn ''assistant'' (PInt 1), turn ''user'' (PInt 2), turn ''assistant'' (PInt 3),
     turn ''user'' (PInt 4), turn ''assistant'' (PInt 5), turn ''user'' (PInt 6), turn ''assistant'' (PInt 7),
     turn ''user'' (PInt 8), turn ''assistant'' (PInt 9), turn ''user'' (PInt 10), turn ''assistant'' (PInt 11),
     turn ''user'' (PInt 12), turn ''assistant'' (PInt 13), turn ''user'' (PInt 14), turn ''assistant'' (PInt 15),
     turn ''user'' (PInt 16), turn ''assistant'' (PInt 17), turn ''user'' (PInt 18), turn ''assistant'' (PInt 19),
     turn ''user'' (PInt 20), turn ''assistant'' (PInt 21)]"
  unfolding demo_turns_def by (simp add: upt_rec)

section \<open>Request validation\<close>



section \<open>Model families\<close>

lemma titan_two_turns:
  "format_messages_for_titan w
     [turn ''user'' (PStr (asc ''Hi'')), turn ''assistant'' (PStr (asc ''Hello''))] =
   Inr (asc ''User: Hi\<newline>Assistant: Hello\<newline>Assistant: '')"
  by (simp add: format_messages_for_titan_def turn_def py_item_def py_str_def asc_Cons)





text \<open>
  Claim C5. For a model id that contains \<open>amazon.titan\<close> and is dispatched to the Titan
  family (it does not contain \<open>anthropic\<close>, which the source tests first) and the
  conversation of a user turn \<open>Hi\<close> and an assistant turn \<open>Hello\<close>, the prompt is
  \<open>User: Hi\<close>, newline, \<open>Assistant: Hello\<close>, newline, \<open>Assistant: \<close>; it is the
  \<open>inputText\<close> of the request body and of the payload handed to the backend.
\<close>

theorem titan_payload_prompt:
  assumes "\<not> contains (asc ''anthropic'') model_id"
    and "contains (asc ''amazon.titan'') model_id"
  shows "format_messages_for_titan w
           [turn ''user'' (PStr (asc ''Hi'')), turn ''assistant'' (PStr (asc ''Hello''))] =
         Inr (asc ''User: Hi\<newline>Assistant: Hello\<newline>Assistant: '')
       \<and> request_body w
           [turn ''user'' (PStr (asc ''Hi'')), turn ''assistant'' (PStr (asc ''Hello''))]
           (PStr model_id) max_tokens temperature =
         Inr (PDict [(asc ''inputText'',
                        PStr (asc ''User: Hi\<newline>Assistant: Hello\<newline>Assistant: '')),
                     (asc ''textGenerationConfig'',
                        PDict [(asc ''maxTokenCount'', PInt max_tokens),
                               (asc ''temperature'', PFloat temperature),
                               (asc ''topP'', PFloat (9 / 10))])])
       \<and> trace (snd (call_bedrock w
           [turn ''user'' (PStr (asc ''Hi'')), turn ''assistant'' (PStr (asc ''Hello''))]
           (PStr model_id) max_tokens temperature st)) =
         trace st @
         [InvokeModel
            (PDict [(asc ''inputText'',
                       PStr (asc ''User: Hi\<newline>Assistant: Hello\<newline>Assistant: '')),
                    (asc ''textGenerationConfig'',
                       PDict [(asc ''maxTokenCount'', PInt max_tokens),
                              (asc ''temperature'', PFloat temperature),
                              (asc ''topP'', PFloat (9 / 10))])])
            (PStr model_id)]"
proof -
  have body: "request_body w
           [turn ''user'' (PStr (asc ''Hi'')), turn ''assistant'' (PStr (asc ''Hello''))]
           (PStr model_id) max_tokens temperature =
         Inr (PDict [(asc ''inputText'',
                        PStr (asc ''User: Hi\<newline>Assistant: Hello\<newline>Assistant: '')),
                     (asc ''textGenerationConfig'',
                        PDict [(asc ''maxTokenCount'', PInt max_tokens),
                               (asc ''temperature'', PFloat temperature),
                               (asc ''topP'', PFloat (9 / 10))])])"
    using assms by (simp add: request_body_def titan_two_turns)
  have "trace (snd (call_bedrock w
           [turn ''user'' (PStr (asc ''Hi'')), turn ''assistant'' (PStr (asc ''Hello''))]
           (PStr model_id) max_tokens temperature st)) =
         trace st @
         [InvokeModel
            (PDict [(asc ''inputText'',
                       PStr (asc ''User: Hi\<newline>Assistant: Hello\<newline>Assistant: '')),
                    (asc ''textGenerationConfig'',
                       PDict [(asc ''maxTokenCount'', PInt max_tokens),
                              (asc ''temperature'', PFloat temperature),
                              (asc ''topP'', PFloat (9 / 10))])])
            (PStr model_id)]"
    by (simp add: call_bedrock_def call_bedrock_try_def body split: sum.split prod.split)
  with body show ?thesis by (simp add: titan_two_turns)
qed

theorem titan_payload_prompt_witness:
  "trace (snd (call_bedrock demo_world
           [turn ''user'' (PStr (asc ''Hi'')), turn ''assistant'' (PStr (asc ''Hello''))]
           (PStr (asc ''amazon.titan-text-express-v1'')) 1000 (7 / 10) initial_state)) =
         [InvokeModel
            (PDict [(asc ''inputText'',
                       PStr (asc ''User: Hi\<newline>Assistant: Hello\<newline>Assistant: '')),
                    (asc ''textGenerationConfig'',
                       PDict [(asc ''maxTokenCount'', PInt 1000),
                              (asc ''temperature'', PFloat (7 / 10)),
                              (asc ''topP'', PFloat (9 / 10))])])
            (PStr (asc ''amazon.titan-text-express-v1''))]"
  using titan_payload_prompt [of "asc ''amazon.titan-text-express-v1''" demo_world 1000 "7 / 10" initial_state]
  by (simp add: asc_Cons initial_state_def)

section \<open>The history store\<close>

lemma save_written:
  "store_configured w \<Longrightarrow> dynamo_table w (table_name w) = None \<Longrightarrow>
   snd (save_conversation_history w session_id messages bot_response st) =
     emit (PutItem (table_name w)
        (PDict [(asc ''session_id'', session_id),
                (asc ''messages'', PList (last_20 (messages @ [turn ''assistant'' bot_response]))),
                (asc ''updated_at'', PInt (trunc (clock w (Suc (ticks st))))),
                (asc ''ttl'', PInt (trunc (clock w (ticks st)) + 86400))]))
       (st\<lparr>ticks := Suc (Suc (ticks st))\<rparr>)"
  by (simp add: save_conversation_history_def Let_def time_time_def split: option.split)

lemma save_not_written:
  "\<not> (store_configured w \<and> dynamo_table w (table_name w) = None) \<Longrightarrow>
   save_conversation_history w session_id messages bot_response st = (Inr (), st)"
  by (auto simp add: save_conversation_history_def Let_def split: option.split)

lemma save_total:
  "fst (save_conversation_history w session_id messages bot_response st) = Inr ()"
  by (simp add: save_conversation_history_def Let_def split: option.split prod.split)

text \<open>
  Claim C3. get_conversation_history returns the empty list, and raises nothing, when no
  table is configured (then the state is untouched as well), when the key has no item,
  when the read raises and when the table cannot be opened; it never raises. When no
  table is configured, save_conversation_history returns without writing, whatever its
  arguments.
\<close>

theorem history_store_never_fails_caller:
  "(\<not> store_configured w \<longrightarrow>
      get_conversation_history w session_id st = (Inr (PList []), st))
   \<and> (get_item w (table_name w) session_id = Inr None \<longrightarrow>
      fst (get_conversation_history w session_id st) = Inr (PList []))
   \<and> ((\<exists>e. get_item w (table_name w) session_id = Inl e) \<longrightarrow>
      fst (get_conversation_history w session_id st) = Inr (PList []))
   \<and> ((\<exists>e. dynamo_table w (table_name w) = Some e) \<longrightarrow>
      fst (get_conversation_history w session_id st) = Inr (PList []))
   \<and> (\<exists>v. fst (get_conversation_history w session_id st) = Inr v)
   \<and> (\<not> store_configured w \<longrightarrow>
      save_conversation_history w session_id messages bot_response st = (Inr (), st))"
  by (auto simp add: get_conversation_history_def save_conversation_history_def
      split: option.split sum.split)

theorem history_store_never_fails_caller_witness:
  "get_conversation_history demo_world (PStr (asc ''s1'')) initial_state =
     (Inr (PList []), initial_state)
   \<and> save_conversation_history demo_world (PStr (asc ''s1''))
       [turn ''user'' (PStr (asc ''Hi''))] (PStr (asc ''ok'')) initial_state =
     (Inr (), initial_state)
   \<and> fst (get_conversation_history store_world (PStr (asc ''s1'')) initial_state) =
     Inr (PList [])
   \<and> fst (get_conversation_history broken_store_world (PStr (asc ''s1'')) initial_state) =
     Inr (PList [])"
proof -
  have missing: "get_item store_world (table_name store_world) (PStr (asc ''s1'')) = Inr None"
    by (simp add: store_world_def demo_world_def)
  have failing: "\<exists>e. get_item broken_store_world (table_name broken_store_world)
                       (PStr (asc ''s1'')) = Inl e"
    by (simp add: broken_store_world_def)
  from history_store_never_fails_caller
         [of demo_world "PStr (asc ''s1'')" initial_state
             "[turn ''user'' (PStr (asc ''Hi''))]" "PStr (asc ''ok'')"]
       history_store_never_fails_caller [of store_world "PStr (asc ''s1'')" initial_state]
       history_store_never_fails_caller [of broken_store_world "PStr (asc ''s1'')" initial_state]
       demo_not_configured missing failing
  show ?thesis by blast
qed

text \<open>
  Claim C4. Given 22 turns and the backend's reply, that is 23 turns with the assistant
  turn it appends, save_conversation_history (table configured and opened) hands to
  \<open>put_item\<close> exactly the last 20 of the 23: the first three are dropped, the rest is in
  its order and unchanged.
\<close>

theorem save_23_turns_keeps_last_20:
  assumes "store_configured w"
    and "dynamo_table w (table_name w) = None"
    and "length messages = 22"
  shows "trace (snd (save_conversation_history w session_id messages bot_response st)) =
         trace st @
         [PutItem (table_name w)
            (PDict [(asc ''session_id'', session_id),
                    (asc ''messages'',
                       PList (drop 3 (messages @ [turn ''assistant'' bot_response]))),
                    (asc ''updated_at'', PInt (trunc (clock w (Suc (ticks st))))),
                    (asc ''ttl'', PInt (trunc (clock w (ticks st)) + 86400))])]
       \<and> length (drop 3 (messages @ [turn ''assistant'' bot_response])) = 20"
  using assms by (simp add: save_written last_20_def)

theorem save_23_turns_keeps_last_20_witness:
  "trace (snd (save_conversation_history store_world (PStr (asc ''s1'')) demo_turns
                 (PStr (asc ''ok'')) initial_state)) =
   [PutItem (asc ''chat'')
      (PDict [(asc ''session_id'', PStr (asc ''s1'')),
              (asc ''messages'',
                 PList [turn ''assistant'' (PInt 3),
     turn ''user'' (PInt 4), turn ''assistant'' (PInt 5), turn ''user'' (PInt 6), turn ''assistant'' (PInt 7),
     turn ''user'' (PInt 8), turn ''assistant'' (PInt 9), turn ''user'' (PInt 10), turn ''assistant'' (PInt 11),
     turn ''user'' (PInt 12), turn ''assistant'' (PInt 13), turn ''user'' (PInt 14), turn ''assistant'' (PInt 15),
     turn ''user'' (PInt 16), turn ''assistant'' (PInt 17), turn ''user'' (PInt 18), turn ''assistant'' (PInt 19),
     turn ''user'' (PInt 20), turn ''assistant'' (PInt 21), turn ''assistant'' (PStr (asc ''ok''))]),
              (asc ''updated_at'', PInt 1700000000),
              (asc ''ttl'', PInt 1700086400)])]"
proof -
  have len: "length demo_turns = 22"
    by (simp add: demo_turns_def)
  have clk: "trunc (clock store_world 0) = 1700000000" "trunc (clock store_world (Suc 0)) = 1700000000"
    by (simp_all add: store_world_def demo_world_def trunc_def)
  from save_23_turns_keeps_last_20 [OF store_world_configured(1) store_world_configured(3) len,
         of "PStr (asc ''s1'')" "PStr (asc ''ok'')" initial_state]
  show ?thesis
    by (simp add: store_world_configured clk initial_state_def demo_turns_eval)
qed

text \<open>
  Claim C6. Whenever save_conversation_history writes an item, its \<open>ttl\<close> is the clock
  reading taken on line 264, truncated to seconds, plus 86400, and its \<open>updated_at\<close> is
  the next clock reading, taken on line 270, truncated to seconds. Both are readings of
  this call; nothing of an earlier item enters (the function does not read the store).
  When no table is configured or it cannot be opened, nothing is written.
\<close>

theorem save_times_recomputed:
  "trace (snd (save_conversation_history w session_id messages bot_response st)) =
     (if store_configured w \<and> dynamo_table w (table_name w) = None
      then trace st @
           [PutItem (table_name w)
              (PDict [(asc ''session_id'', session_id),
                      (asc ''messages'',
                         PList (last_20 (messages @ [turn ''assistant'' bot_response]))),
                      (asc ''updated_at'', PInt (trunc (clock w (Suc (ticks st))))),
                      (asc ''ttl'', PInt (trunc (clock w (ticks st)) + 86400))])]
      else trace st)"
proof (cases "store_configured w \<and> dynamo_table w (table_name w) = None")
  case True
  then show ?thesis by (simp add: save_written)
next
  case False
  then show ?thesis using save_not_written [OF False] by simp
qed

theorem save_times_recomputed_witness:
  "trace (snd (save_conversation_history store_world (PStr (asc ''s1''))
                 [turn ''user'' (PStr (asc ''Hi''))] (PStr (asc ''ok'')) initial_state)) =
     [PutItem (asc ''chat'')
        (PDict [(asc ''session_id'', PStr (asc ''s1'')),
                (asc ''messages'',
                   PList [turn ''user'' (PStr (asc ''Hi'')), turn ''assistant'' (PStr (asc ''ok''))]),
                (asc ''updated_at'', PInt 1700000000),
                (asc ''ttl'', PInt 1700086400)])]
   \<and> trace (snd (save_conversation_history store_world (PStr (asc ''s1''))
                 [turn ''user'' (PStr (asc ''Hi''))] (PStr (asc ''ok''))
                 \<lparr>trace = [], ticks = 10\<rparr>)) =
     [PutItem (asc ''chat'')
        (PDict [(asc ''session_id'', PStr (asc ''s1'')),
                (asc ''messages'',
                   PList [turn ''user'' (PStr (asc ''Hi'')), turn ''assistant'' (PStr (asc ''ok''))]),
                (asc ''updated_at'', PInt 1700000005),
                (asc ''ttl'', PInt 1700086405)])]"
proof -
  have clk:
    "trunc (clock store_world 0) = 1700000000" "trunc (clock store_world (Suc 0)) = 1700000000"
    "trunc (clock store_world 10) = 1700000005" "trunc (clock store_world 11) = 1700000005"
    by (simp_all add: store_world_def demo_world_def trunc_def)
  from save_times_recomputed [of store_world "PStr (asc ''s1'')"
         "[turn ''user'' (PStr (asc ''Hi''))]" "PStr (asc ''ok'')" initial_state]
       save_times_recomputed [of store_world "PStr (asc ''s1'')"
         "[turn ''user'' (PStr (asc ''Hi''))]" "PStr (asc ''ok'')" "\<lparr>trace = [], ticks = 10\<rparr>"]
  show ?thesis
    by (simp add: store_world_configured clk initial_state_def last_20_def)
qed

section \<open>Exceptions and the handler's outermost boundary\<close>


lemma raise_fault_class [simp]:
  "(raise_fault w c f :: exn + 'a) = Inl e \<longleftrightarrow> e = Exc c (fault_text w f)"
  by (auto simp add: raise_fault_def)
















section \<open>The request body\<close>

lemma map_of_append_absent:
  "map_of ev k = None \<Longrightarrow> map_of (ev @ [(k, v)]) k' = (if k' = k then Some v else map_of ev k')"
  by (simp add: map_add_def split: option.split)

lemma handle_request_absent_body:
  assumes "map_of ev (asc ''body'') = None"
  shows "handle_request w hs (PDict (ev @ [(asc ''body'', PStr (asc ''{}''))])) st =
         handle_request w hs (PDict ev) st"
proof -
  have at_method: "map_of (ev @ [(asc ''body'', PStr (asc ''{}''))]) (asc ''httpMethod'') =
                map_of ev (asc ''httpMethod'')"
    using assms by (simp add: map_of_append_absent del: map_of_append)
  have at_body: "map_of (ev @ [(asc ''body'', PStr (asc ''{}''))]) (asc ''body'') =
               Some (PStr (asc ''{}''))"
    using assms by (simp add: map_of_append_absent del: map_of_append)
  show ?thesis
    using assms by (simp add: handle_request_def parse_body_def at_method at_body del: map_of_append)
qed

lemma demo_loads_not_json:
  "loads_text demo_world (asc ''not json'') = Inl (Exc JSONDecodeError (asc ''Expecting value''))"
  by (simp add: demo_world_def demo_documents_def)

lemma demo_loads_empty_object: "loads_text demo_world (asc ''{}'') = Inr (PDict [])"
  by (simp add: demo_world_def demo_documents_def)

lemma demo_params_empty:
  "request_params demo_world (PDict []) = Inr ([], PNone, PStr default_model_id, 1000, 7 / 10)"
  by (simp add: request_params_def message_of_def py_strip_method_def py_strip_def
      max_tokens_of_def temperature_of_def env_get_def py_int_def py_float_def demo_world_def)

lemma demo_handler_empty_object:
  "lambda_handler demo_world (post_event (PStr (asc ''{}''))) st =
     (Inr (message_required_response cors_headers), st)"
proof -
  have "parse_body demo_world
          (PDict [(asc ''httpMethod'', PStr (asc ''POST'')), (asc ''body'', PStr (asc ''{}''))]) =
        Inr (PDict [])"
    by (simp add: parse_body_def py_json_loads_def demo_loads_empty_object)
  from handler_after_params [OF _ post_event_method this demo_params_empty, of st]
  show ?thesis by (simp add: post_event_def)
qed

text \<open>
  Claim C8, as amended. For a POST request whose body is text that the JSON decoder
  rejects with \<open>JSONDecodeError\<close>, the handler answers with status 400 and the
  malformed-JSON body. A request with no \<open>body\<close> key is handled as the same request with
  the body \<open>{}\<close>, the default of line 50: it is not a malformed body.
\<close>

theorem undecodable_body_is_400:
  assumes "json_ok (PDict ev)"
    and "map_of ev (asc ''httpMethod'') = Some (PStr (asc ''POST''))"
  shows "(\<forall>text e. map_of ev (asc ''body'') = Some (PStr text) \<and> loads_text w text = Inl e \<and>
            exc_class e = JSONDecodeError \<longrightarrow>
            lambda_handler w (PDict ev) st = (Inr (bad_json_response cors_headers), st)
            \<and> statusCode (bad_json_response cors_headers) = 400)
       \<and> (map_of ev (asc ''body'') = None \<longrightarrow>
            lambda_handler w (PDict ev) st =
            lambda_handler w (PDict (ev @ [(asc ''body'', PStr (asc ''{}''))])) st)"
proof -
  have decode: "\<forall>text e. map_of ev (asc ''body'') = Some (PStr text) \<and> loads_text w text = Inl e \<and>
            exc_class e = JSONDecodeError \<longrightarrow>
            lambda_handler w (PDict ev) st = (Inr (bad_json_response cors_headers), st)
            \<and> statusCode (bad_json_response cors_headers) = 400"
    using assms
    by (simp add: lambda_handler_json_ok handle_request_post parse_body_def py_json_loads_def
        bad_json_response_def)
  have absent: "map_of ev (asc ''body'') = None \<longrightarrow>
            lambda_handler w (PDict ev) st =
            lambda_handler w (PDict (ev @ [(asc ''body'', PStr (asc ''{}''))])) st"
    using assms(1) by (simp add: lambda_handler_def handle_request_absent_body)
  from decode absent show ?thesis by blast
qed

theorem undecodable_body_is_400_witness:
  "lambda_handler demo_world (post_event (PStr (asc ''not json''))) initial_state =
     (Inr (bad_json_response cors_headers), initial_state)
   \<and> lambda_handler demo_world (PDict [(asc ''httpMethod'', PStr (asc ''POST''))]) initial_state =
     (Inr (message_required_response cors_headers), initial_state)"
proof -
  have ev1: "json_ok (PDict [(asc ''httpMethod'', PStr (asc ''POST'')),
                             (asc ''body'', PStr (asc ''not json''))])"
    by simp
  have ev2: "json_ok (PDict [(asc ''httpMethod'', PStr (asc ''POST''))])"
    by simp
  have m2: "map_of [(asc ''httpMethod'', PStr (asc ''POST''))] (asc ''httpMethod'') =
              Some (PStr (asc ''POST''))"
    by simp
  from undecodable_body_is_400 [OF ev1 post_event_method, of demo_world initial_state]
       undecodable_body_is_400 [OF ev2 m2, of demo_world initial_state]
       demo_loads_not_json demo_handler_empty_object [of initial_state]
  show ?thesis by (simp add: post_event_def)
qed

text \<open>
  A \<open>null\<close> body and the body \<open>[]\<close>, a JSON value that is not an object, are answered
  with status 500; a request without a body is answered with status 400, but with the
  message-required body, which is not the malformed-JSON body.
\<close>

theorem body_not_json_object_counterexample:
  "lambda_handler demo_world (post_event PNone) initial_state =
     (Inr \<lparr>statusCode = 500, headers = cors_headers,
           body = PDict [(asc ''error'',
                            PStr (internal_error_prefix @
                                  asc ''the JSON object must be str, bytes or bytearray'')),
                         (asc ''status'', PStr (asc ''internal_error''))]\<rparr>, initial_state)
   \<and> lambda_handler demo_world (post_event (PStr (asc ''[]''))) initial_state =
     (Inr \<lparr>statusCode = 500, headers = cors_headers,
           body = PDict [(asc ''error'',
                            PStr (internal_error_prefix @ asc ''object has no attribute get'')),
                         (asc ''status'', PStr (asc ''internal_error''))]\<rparr>, initial_state)
   \<and> lambda_handler demo_world (PDict [(asc ''httpMethod'', PStr (asc ''POST''))]) initial_state =
     (Inr (message_required_response cors_headers), initial_state)
   \<and> message_required_response cors_headers \<noteq> bad_json_response cors_headers"
proof -
  have ft: "fault_text demo_world = demo_fault_text"
    by (simp add: demo_world_def)
  have null: "lambda_handler demo_world (post_event PNone) initial_state =
     (Inr \<lparr>statusCode = 500, headers = cors_headers,
           body = PDict [(asc ''error'',
                            PStr (internal_error_prefix @
                                  asc ''the JSON object must be str, bytes or bytearray'')),
                         (asc ''status'', PStr (asc ''internal_error''))]\<rparr>, initial_state)"
    by (simp add: lambda_handler_def handle_request_def post_event_def parse_body_def
        py_json_loads_def raise_fault_def ft handle_exception_def internal_error_response_def)
  have "loads_text demo_world (asc ''[]'') = Inr (PList [])"
    by (simp add: demo_world_def demo_documents_def)
  then have list: "lambda_handler demo_world (post_event (PStr (asc ''[]''))) initial_state =
     (Inr \<lparr>statusCode = 500, headers = cors_headers,
           body = PDict [(asc ''error'',
                            PStr (internal_error_prefix @ asc ''object has no attribute get'')),
                         (asc ''status'', PStr (asc ''internal_error''))]\<rparr>, initial_state)"
    by (simp add: lambda_handler_def handle_request_def post_event_def parse_body_def
        py_json_loads_def request_params_def message_of_def py_get_def raise_fault_def ft
        handle_exception_def internal_error_response_def asc_def)
  have absent: "lambda_handler demo_world (PDict [(asc ''httpMethod'', PStr (asc ''POST''))])
                  initial_state =
     (Inr (message_required_response cors_headers), initial_state)"
    using demo_handler_empty_object [of initial_state]
    by (simp add: lambda_handler_def handle_request_def post_event_def parse_body_def)
  have differ: "message_required_response cors_headers \<noteq> bad_json_response cors_headers"
    by (simp add: message_required_response_def bad_json_response_def)
  from null list absent differ show ?thesis by blast
qed

section \<open>The catch-all\<close>

text \<open>
  For an event that \<open>json.dumps\<close> serialises, every exception of the \<open>try\<close> body is
  turned into a response: the handler raises nothing.
\<close>

lemma handler_serialisable_event_never_raises:
  "json_ok event \<Longrightarrow> \<exists>r st'. lambda_handler w event st = (Inr r, st')"
proof -
  assume ok: "json_ok event"
  obtain res st' where run: "handle_request w cors_headers event st = (res, st')"
    by (cases "handle_request w cors_headers event st")
  show ?thesis
  proof (cases res)
    case (Inl e)
    with ok run handle_exception_bound [of w cors_headers e] show ?thesis
      by (auto simp add: lambda_handler_json_ok)
  next
    case (Inr r)
    with ok run show ?thesis by (simp add: lambda_handler_json_ok)
  qed
qed

text \<open>
  Claim C7 says that the handler never raises, also when the failure comes before the
  response headers are built. The code does not do that: for an event holding a value
  that JSON cannot serialise, line 19 raises before \<open>headers\<close> is bound on line 22, the
  \<open>except Exception\<close> clause reads \<open>headers\<close>, and \<open>UnboundLocalError\<close> leaves the handler.
\<close>

theorem handler_raises_before_headers:
  "lambda_handler demo_world (post_event (PObj 0)) initial_state =
     (Inl (Exc UnboundLocalError (asc ''cannot access local variable headers'')), initial_state)"
  by (simp add: lambda_handler_def raise_fault_def handle_exception_def demo_world_def
      asc_def)

section \<open>Session-less mode\<close>

lemma call_bedrock_try_state:
  "snd (call_bedrock_try w messages model_id max_tokens temperature st) = st \<or>
   (\<exists>payload. snd (call_bedrock_try w messages model_id max_tokens temperature st) =
        emit (InvokeModel payload model_id) st)"
  by (auto simp add: call_bedrock_try_def split: sum.splits)

lemma call_bedrock_state:
  "snd (call_bedrock w messages model_id max_tokens temperature st) = st \<or>
   (\<exists>payload. snd (call_bedrock w messages model_id max_tokens temperature st) =
        emit (InvokeModel payload model_id) st)"
  using call_bedrock_try_state [of w messages model_id max_tokens temperature st]
  by (auto simp add: call_bedrock_def split: prod.splits sum.splits)

lemma call_bedrock_store_effects:
  "filter is_store_effect (trace (snd (call_bedrock w messages model_id max_tokens temperature st))) =
   filter is_store_effect (trace st)"
  using call_bedrock_state [of w messages model_id max_tokens temperature st] by auto

lemma call_bedrock_keeps_trace:
  "set (trace st) \<subseteq> set (trace (snd (call_bedrock w messages model_id max_tokens temperature st)))"
  using call_bedrock_state [of w messages model_id max_tokens temperature st] by auto

lemma save_keeps_trace:
  "set (trace st) \<subseteq>
   set (trace (snd (save_conversation_history w session_id messages bot_response st)))"
  by (cases "store_configured w \<and> dynamo_table w (table_name w) = None")
     (auto simp add: save_written save_not_written)

lemma converse_sessionless:
  assumes "\<not> py_truthy session_id"
  shows "converse w hs message session_id model_id max_tokens temperature st =
     (case call_bedrock w [turn ''user'' (PStr message)] model_id max_tokens temperature
             (st\<lparr>ticks := Suc (ticks st)\<rparr>) of
        (Inl e, st3) \<Rightarrow> (Inl e, st3)
      | (Inr response_text, st3) \<Rightarrow>
          if json_ok (success_body response_text session_id model_id
                        (clock w (ticks st)) (clock w (ticks st3)))
          then (Inr \<lparr>statusCode = 200, headers = hs,
                     body = success_body response_text session_id model_id
                              (clock w (ticks st)) (clock w (ticks st3))\<rparr>,
                st3\<lparr>ticks := Suc (ticks st3)\<rparr>)
          else (raise_fault w TypeError
                  (NotSerializable (success_body response_text session_id model_id
                                      (clock w (ticks st)) (clock w (ticks st3)))),
                st3\<lparr>ticks := Suc (ticks st3)\<rparr>))"
  using assms
  by (simp add: converse_def py_append_def time_time_def Let_def split: prod.split sum.split)

lemma converse_sessionless_store_effects:
  assumes "\<not> py_truthy session_id"
  shows "filter is_store_effect
           (trace (snd (converse w hs message session_id model_id max_tokens temperature st))) =
         filter is_store_effect (trace st)"
proof -
  let ?st1 = "st\<lparr>ticks := Suc (ticks st)\<rparr>"
  have "filter is_store_effect
          (trace (snd (call_bedrock w [turn ''user'' (PStr message)] model_id max_tokens
                         temperature ?st1))) =
        filter is_store_effect (trace ?st1)"
    by (rule call_bedrock_store_effects)
  then show ?thesis
    by (simp add: converse_sessionless [OF assms] split: prod.split sum.split) auto
qed

lemma snd_catch_all [simp]: "snd (catch_all w hs outcome) = snd outcome"
  by (cases outcome) (simp add: catch_all_def split: sum.split)

lemma load_emits:
  assumes "store_configured w" and "dynamo_table w (table_name w) = None"
  shows "trace (snd (get_conversation_history w session_id st)) =
         trace st @ [GetItem (table_name w) session_id]"
  using assms
  by (simp add: get_conversation_history_def split: sum.split option.split)

lemma converse_keeps_load:
  assumes "py_truthy session_id"
  shows "set (trace (snd (get_conversation_history w session_id st))) \<subseteq>
         set (trace (snd (converse w hs message session_id model_id max_tokens temperature st)))"
proof -
  obtain res st1 where load: "get_conversation_history w session_id st = (res, st1)"
    by (cases "get_conversation_history w session_id st")
  show ?thesis
  proof (cases res)
    case (Inl e)
    with load assms show ?thesis by (simp add: converse_def)
  next
    case (Inr history)
    show ?thesis
    proof (cases "py_append w history (turn ''user'' (PStr message))")
      case (Inl e)
      with load Inr assms show ?thesis by (simp add: converse_def)
    next
      case conv: (Inr conversation)
      let ?st2 = "st1\<lparr>ticks := Suc (ticks st1)\<rparr>"
      obtain out st3 where call:
        "call_bedrock w conversation model_id max_tokens temperature ?st2 = (out, st3)"
        by (cases "call_bedrock w conversation model_id max_tokens temperature ?st2")
      from call_bedrock_keeps_trace [of ?st2 w conversation model_id max_tokens temperature] call
      have keep: "set (trace st1) \<subseteq> set (trace st3)" by simp
      show ?thesis
      proof (cases out)
        case (Inl e)
        with load Inr conv call keep assms show ?thesis
          by (simp add: converse_def time_time_def)
      next
        case reply: (Inr response_text)
        let ?st4 = "st3\<lparr>ticks := Suc (ticks st3)\<rparr>"
        from save_keeps_trace [of ?st4 w session_id conversation response_text]
        have "set (trace st3) \<subseteq>
              set (trace (snd (save_conversation_history w session_id conversation
                                 response_text ?st4)))"
          by simp
        with load Inr conv call keep reply assms show ?thesis
          by (auto simp add: converse_def time_time_def Let_def)
      qed
    qed
  qed
qed

lemma store_call_default:
  "call_bedrock store_world [turn ''user'' (PStr (asc ''hello''))] (PStr default_model_id)
     1000 (7 / 10) st =
   (Inr (PStr (asc ''ok'')),
    emit (InvokeModel
            (PDict [(asc ''anthropic_version'', PStr (asc ''bedrock-2023-05-31'')),
                    (asc ''max_tokens'', PInt 1000),
                    (asc ''messages'', PList [turn ''user'' (PStr (asc ''hello''))]),
                    (asc ''temperature'', PFloat (7 / 10))])
            (PStr default_model_id)) st)"
proof -
  have fam: "contains (asc ''anthropic'') default_model_id"
    by (simp add: default_model_id_def asc_Cons)
  have reply: "\<And>p m. invoke_model store_world p m =
      Inr (PDict [(asc ''content'', PList [PDict [(asc ''text'', PStr (asc ''ok''))]])])"
    by (simp add: store_world_def demo_world_def)
  show ?thesis
    by (simp add: call_bedrock_def call_bedrock_try_def request_body_def fam reply
        response_text_of_def py_item_def py_first_def)
qed

text \<open>
  Claim C9. In a valid request the session id is the value of the \<open>session_id\<close> field,
  \<open>None\<close> when the field is absent. When it is falsy, and the empty string is, the
  handler runs the session-less pipeline: the conversation sent to the backend is the
  user's turn alone, no call to the store is made, before or after, and the success
  response echoes the session id as it came, so the empty string for the empty string.
  This is the pipeline of a request without a session id, with only the echoed value
  different. A truthy session id makes the handler read the store when a table is
  configured.
\<close>

theorem falsy_session_id_is_sessionless:
  assumes "json_ok (PDict ev)"
    and "map_of ev (asc ''httpMethod'') = Some (PStr (asc ''POST''))"
    and "parse_body w (PDict ev) = Inr request"
    and "request_params w request = Inr (message, session_id, model_id, max_tokens, temperature)"
    and "message \<noteq> []" and "length message \<le> 10000"
  shows "py_get w request (asc ''session_id'') PNone = Inr session_id
       \<and> \<not> py_truthy (PStr [])
       \<and> (\<not> py_truthy session_id \<longrightarrow>
            lambda_handler w (PDict ev) st =
              catch_all w (Some cors_headers)
                (case call_bedrock w [turn ''user'' (PStr message)] model_id max_tokens
                        temperature (st\<lparr>ticks := Suc (ticks st)\<rparr>) of
                   (Inl e, st3) \<Rightarrow> (Inl e, st3)
                 | (Inr response_text, st3) \<Rightarrow>
                     if json_ok (success_body response_text session_id model_id
                                   (clock w (ticks st)) (clock w (ticks st3)))
                     then (Inr \<lparr>statusCode = 200, headers = cors_headers,
                                body = success_body response_text session_id model_id
                                         (clock w (ticks st)) (clock w (ticks st3))\<rparr>,
                           st3\<lparr>ticks := Suc (ticks st3)\<rparr>)
                     else (raise_fault w TypeError
                             (NotSerializable
                                (success_body response_text session_id model_id
                                   (clock w (ticks st)) (clock w (ticks st3)))),
                           st3\<lparr>ticks := Suc (ticks st3)\<rparr>))
            \<and> filter is_store_effect (trace (snd (lambda_handler w (PDict ev) st))) =
              filter is_store_effect (trace st))
       \<and> (py_truthy session_id \<and> store_configured w \<and> dynamo_table w (table_name w) = None \<longrightarrow>
            GetItem (table_name w) session_id \<in> set (trace (snd (lambda_handler w (PDict ev) st))))"
proof -
  have run: "lambda_handler w (PDict ev) st =
      catch_all w (Some cors_headers)
        (converse w cors_headers message session_id model_id max_tokens temperature st)"
    using handler_after_params [OF assms(1-4), of st] assms(5,6) by simp
  have sid: "py_get w request (asc ''session_id'') PNone = Inr session_id"
    using request_params_Inr [OF assms(4)] by simp
  have falsy: "\<not> py_truthy session_id \<longrightarrow>
            lambda_handler w (PDict ev) st =
              catch_all w (Some cors_headers)
                (case call_bedrock w [turn ''user'' (PStr message)] model_id max_tokens
                        temperature (st\<lparr>ticks := Suc (ticks st)\<rparr>) of
                   (Inl e, st3) \<Rightarrow> (Inl e, st3)
                 | (Inr response_text, st3) \<Rightarrow>
                     if json_ok (success_body response_text session_id model_id
                                   (clock w (ticks st)) (clock w (ticks st3)))
                     then (Inr \<lparr>statusCode = 200, headers = cors_headers,
                                body = success_body response_text session_id model_id
                                         (clock w (ticks st)) (clock w (ticks st3))\<rparr>,
                           st3\<lparr>ticks := Suc (ticks st3)\<rparr>)
                     else (raise_fault w TypeError
                             (NotSerializable
                                (success_body response_text session_id model_id
                                   (clock w (ticks st)) (clock w (ticks st3)))),
                           st3\<lparr>ticks := Suc (ticks st3)\<rparr>))
            \<and> filter is_store_effect (trace (snd (lambda_handler w (PDict ev) st))) =
              filter is_store_effect (trace st)"
  proof
    assume no: "\<not> py_truthy session_id"
    from converse_sessionless_store_effects [OF no, of w cors_headers message model_id
           max_tokens temperature st]
    show "lambda_handler w (PDict ev) st =
              catch_all w (Some cors_headers)
                (case call_bedrock w [turn ''user'' (PStr message)] model_id max_tokens
                        temperature (st\<lparr>ticks := Suc (ticks st)\<rparr>) of
                   (Inl e, st3) \<Rightarrow> (Inl e, st3)
                 | (Inr response_text, st3) \<Rightarrow>
                     if json_ok (success_body response_text session_id model_id
                                   (clock w (ticks st)) (clock w (ticks st3)))
                     then (Inr \<lparr>statusCode = 200, headers = cors_headers,
                                body = success_body response_text session_id model_id
                                         (clock w (ticks st)) (clock w (ticks st3))\<rparr>,
                           st3\<lparr>ticks := Suc (ticks st3)\<rparr>)
                     else (raise_fault w TypeError
                             (NotSerializable
                                (success_body response_text session_id model_id
                                   (clock w (ticks st)) (clock w (ticks st3)))),
                           st3\<lparr>ticks := Suc (ticks st3)\<rparr>))
            \<and> filter is_store_effect (trace (snd (lambda_handler w (PDict ev) st))) =
              filter is_store_effect (trace st)"
      by (simp add: run converse_sessionless [OF no, symmetric])
  qed
  have truthy: "py_truthy session_id \<and> store_configured w \<and> dynamo_table w (table_name w) = None \<longrightarrow>
            GetItem (table_name w) session_id \<in> set (trace (snd (lambda_handler w (PDict ev) st)))"
  proof
    assume a: "py_truthy session_id \<and> store_configured w \<and> dynamo_table w (table_name w) = None"
    then have "GetItem (table_name w) session_id \<in>
               set (trace (snd (get_conversation_history w session_id st)))"
      by (simp add: load_emits)
    with a converse_keeps_load [of session_id w st cors_headers message model_id max_tokens
           temperature]
    show "GetItem (table_name w) session_id \<in> set (trace (snd (lambda_handler w (PDict ev) st)))"
      by (auto simp add: run)
  qed
  have empty: "\<not> py_truthy (PStr [])" by simp
  from sid empty falsy truthy show ?thesis by blast
qed

theorem falsy_session_id_is_sessionless_witness:
  \<open>lambda_handler store_world
      (post_event (PStr (asc ''{"message": "hello", "session_id": ""}''))) initial_state =
     (Inr \<lparr>statusCode = 200, headers = cors_headers,
           body = success_body (PStr (asc ''ok'')) (PStr []) (PStr default_model_id)
                    1700000000 (1700000000 + 1 / 2)\<rparr>,
      \<lparr>trace = [InvokeModel
            (PDict [(asc ''anthropic_version'', PStr (asc ''bedrock-2023-05-31'')),
                    (asc ''max_tokens'', PInt 1000),
                    (asc ''messages'', PList [turn ''user'' (PStr (asc ''hello''))]),
                    (asc ''temperature'', PFloat (7 / 10))])
            (PStr default_model_id)], ticks = 2\<rparr>)\<close>
proof -
  let ?request = "PDict [(asc ''message'', PStr (asc ''hello'')), (asc ''session_id'', PStr [])]"
  have ev: "\<And>v. json_ok (PDict [(asc ''httpMethod'', PStr (asc ''POST'')), (asc ''body'', PStr v)])"
    by simp
  have parsed: \<open>parse_body store_world
              (PDict [(asc ''httpMethod'', PStr (asc ''POST'')),
                      (asc ''body'', PStr (asc ''{"message": "hello", "session_id": ""}''))]) =
            Inr ?request\<close>
    by (simp add: parse_body_def py_json_loads_def store_world_def demo_world_def
        demo_documents_def)
  have params: "request_params store_world ?request =
                  Inr (asc ''hello'', PStr [], PStr default_model_id, 1000, 7 / 10)"
    by (simp add: request_params_def message_of_def py_strip_method_def py_strip_hello
        max_tokens_of_def temperature_of_def env_get_def py_int_def py_float_def
        store_world_def demo_world_def)
  have clk: "clock store_world 0 = 1700000000" "clock store_world (Suc 0) = 1700000000 + 1 / 2"
    by (simp_all add: store_world_def demo_world_def)
  from falsy_session_id_is_sessionless [OF ev post_event_method parsed params, of initial_state]
  show ?thesis
    by (simp add: post_event_def store_call_default initial_state_def emit_def clk
        success_body_def numeral_2_eq_2)
qed

end
